theory Spec2Isabelle
  imports Complex_Main
begin

section \<open>Python values\<close>

text \<open>
  A Python \<^verbatim>\<open>str\<close> is a sequence of Unicode code points, so a string is a list of
  code points here: the messages of \<^verbatim>\<open>app.py\<close> are Russian, and \<^verbatim>\<open>strip()\<close> and
  emptiness are about code points, not bytes. \<open>ascii\<close> writes an ASCII literal.
\<close>

type_synonym pystr = "nat list"

definition ascii :: "string \<Rightarrow> pystr" where
  "ascii cs = map of_char cs"

text \<open>
  What \<^verbatim>\<open>response.json()\<close> can return: the Python values a JSON document decodes to.
  A float is kept by its value; the decoder also accepts the tokens for the two
  infinities and for not-a-number. A dict is an association list in insertion order,
  looked up with \<open>map_of\<close>.
\<close>

datatype pyfloat = Finite rat | PosInf | NegInf | NaN

datatype pyval =
    PNone
  | PBool bool
  | PInt int
  | PFloat pyfloat
  | PStr pystr
  | PList "pyval list"
  | PDict "(pystr \<times> pyval) list"

text \<open>Python's truth value, as \<^verbatim>\<open>if not news_data\<close> tests it.\<close>

fun truthy :: "pyval \<Rightarrow> bool" where
  "truthy PNone = False"
| "truthy (PBool b) = b"
| "truthy (PInt i) = (i \<noteq> 0)"
| "truthy (PFloat f) = (f \<noteq> Finite 0)"
| "truthy (PStr s) = (s \<noteq> [])"
| "truthy (PList xs) = (xs \<noteq> [])"
| "truthy (PDict kvs) = (kvs \<noteq> [])"

text \<open>
  The exceptions that leave the two functions. \<open>HTTPException\<close> is FastAPI's, with its
  \<^verbatim>\<open>status_code\<close> and \<^verbatim>\<open>detail\<close>; the others are raised by the libraries and by
  Python itself and are caught nowhere in \<^verbatim>\<open>get_recent_news\<close>.
\<close>

datatype exn =
    HTTPException int pystr
  | RequestException
  | JSONDecodeError
  | AttributeError
  | TypeError
  | KeyError

section \<open>String literals of \<^verbatim>\<open>app.py\<close>\<close>

definition CURRENTS_KEY_MISSING :: pystr where
  \<comment> \<open>line 29: the environment variable CURRENTS_API_KEY is not set (52 code points)\<close>
  "CURRENTS_KEY_MISSING =
    [0x41F, 0x435, 0x440, 0x435, 0x43C, 0x435, 0x43D, 0x43D, 0x430, 0x44F, 0x20, 0x43E,
     0x43A, 0x440, 0x443, 0x436, 0x435, 0x43D, 0x438, 0x44F, 0x20, 0x43, 0x55, 0x52,
     0x52, 0x45, 0x4E, 0x54, 0x53, 0x5F, 0x41, 0x50, 0x49, 0x5F, 0x4B, 0x45,
     0x59, 0x20, 0x43D, 0x435, 0x20, 0x443, 0x441, 0x442, 0x430, 0x43D, 0x43E, 0x432,
     0x43B, 0x435, 0x43D, 0x430]"

definition FETCH_ERROR_PREFIX :: pystr where
  \<comment> \<open>line 42: error while fetching data, followed by a colon and a space (29 code points)\<close>
  "FETCH_ERROR_PREFIX =
    [0x41E, 0x448, 0x438, 0x431, 0x43A, 0x430, 0x20, 0x43F, 0x440, 0x438, 0x20, 0x43F,
     0x43E, 0x43B, 0x443, 0x447, 0x435, 0x43D, 0x438, 0x438, 0x20, 0x434, 0x430, 0x43D,
     0x43D, 0x44B, 0x445, 0x3A, 0x20]"

definition NO_NEWS :: pystr where
  \<comment> \<open>line 46: no fresh news found, with a full stop (27 code points)\<close>
  "NO_NEWS =
    [0x421, 0x432, 0x435, 0x436, 0x438, 0x445, 0x20, 0x43D, 0x43E, 0x432, 0x43E, 0x441,
     0x442, 0x435, 0x439, 0x20, 0x43D, 0x435, 0x20, 0x43D, 0x430, 0x439, 0x434, 0x435,
     0x43D, 0x43E, 0x2E]"

definition OPENAI_KEY_MISSING :: pystr where
  \<comment> \<open>line 55: the environment variable OPENAI_API_KEY is not set (50 code points)\<close>
  "OPENAI_KEY_MISSING =
    [0x41F, 0x435, 0x440, 0x435, 0x43C, 0x435, 0x43D, 0x43D, 0x430, 0x44F, 0x20, 0x43E,
     0x43A, 0x440, 0x443, 0x436, 0x435, 0x43D, 0x438, 0x44F, 0x20, 0x4F, 0x50, 0x45,
     0x4E, 0x41, 0x49, 0x5F, 0x41, 0x50, 0x49, 0x5F, 0x4B, 0x45, 0x59, 0x20,
     0x43D, 0x435, 0x20, 0x443, 0x441, 0x442, 0x430, 0x43D, 0x43E, 0x432, 0x43B, 0x435,
     0x43D, 0x430]"

definition GENERATION_ERROR_PREFIX :: pystr where
  \<comment> \<open>line 127: error while generating content, followed by a colon and a space (31 code points)\<close>
  "GENERATION_ERROR_PREFIX =
    [0x41E, 0x448, 0x438, 0x431, 0x43A, 0x430, 0x20, 0x43F, 0x440, 0x438, 0x20, 0x433,
     0x435, 0x43D, 0x435, 0x440, 0x430, 0x446, 0x438, 0x438, 0x20, 0x43A, 0x43E, 0x43D,
     0x442, 0x435, 0x43D, 0x442, 0x430, 0x3A, 0x20]"

definition title_prompt_a :: pystr where
  \<comment> \<open>lines 66-68, up to the topic (66 code points)\<close>
  "title_prompt_a =
    [0x41F, 0x440, 0x438, 0x434, 0x443, 0x43C, 0x430, 0x439, 0x442, 0x435, 0x20, 0x43F,
     0x440, 0x438, 0x432, 0x43B, 0x435, 0x43A, 0x430, 0x442, 0x435, 0x43B, 0x44C, 0x43D,
     0x44B, 0x439, 0x20, 0x438, 0x20, 0x442, 0x43E, 0x447, 0x43D, 0x44B, 0x439, 0x20,
     0x437, 0x430, 0x433, 0x43E, 0x43B, 0x43E, 0x432, 0x43E, 0x43A, 0x20, 0x434, 0x43B,
     0x44F, 0x20, 0x441, 0x442, 0x430, 0x442, 0x44C, 0x438, 0x20, 0x43D, 0x430, 0x20,
     0x442, 0x435, 0x43C, 0x443, 0x20, 0x27]"

definition title_prompt_b :: pystr where
  \<comment> \<open>lines 66-68, between the topic and the news (33 code points)\<close>
  "title_prompt_b =
    [0x27, 0x2C, 0x20, 0x441, 0x20, 0x443, 0x447, 0x451, 0x442, 0x43E, 0x43C, 0x20,
     0x430, 0x43A, 0x442, 0x443, 0x430, 0x43B, 0x44C, 0x43D, 0x44B, 0x445, 0x20, 0x43D,
     0x43E, 0x432, 0x43E, 0x441, 0x442, 0x435, 0x439, 0x3A, 0xA]"

definition title_prompt_c :: pystr where
  \<comment> \<open>lines 66-68, after the news (63 code points)\<close>
  "title_prompt_c =
    [0x2E, 0x20, 0x417, 0x430, 0x433, 0x43E, 0x43B, 0x43E, 0x432, 0x43E, 0x43A, 0x20,
     0x434, 0x43E, 0x43B, 0x436, 0x435, 0x43D, 0x20, 0x431, 0x44B, 0x442, 0x44C, 0x20,
     0x438, 0x43D, 0x442, 0x435, 0x440, 0x435, 0x441, 0x43D, 0x44B, 0x43C, 0x20, 0x438,
     0x20, 0x44F, 0x441, 0x43D, 0x43E, 0x20, 0x43F, 0x435, 0x440, 0x435, 0x434, 0x430,
     0x432, 0x430, 0x442, 0x44C, 0x20, 0x441, 0x443, 0x442, 0x44C, 0x20, 0x442, 0x435,
     0x43C, 0x44B, 0x2E]"

definition meta_prompt_a :: pystr where
  \<comment> \<open>lines 84-86, up to the title (49 code points)\<close>
  "meta_prompt_a =
    [0x41D, 0x430, 0x43F, 0x438, 0x448, 0x438, 0x442, 0x435, 0x20, 0x43C, 0x435, 0x442,
     0x430, 0x2D, 0x43E, 0x43F, 0x438, 0x441, 0x430, 0x43D, 0x438, 0x435, 0x20, 0x434,
     0x43B, 0x44F, 0x20, 0x441, 0x442, 0x430, 0x442, 0x44C, 0x438, 0x20, 0x441, 0x20,
     0x437, 0x430, 0x433, 0x43E, 0x43B, 0x43E, 0x432, 0x43A, 0x43E, 0x43C, 0x3A, 0x20,
     0x27]"

definition meta_prompt_b :: pystr where
  \<comment> \<open>lines 84-86, after the title (77 code points)\<close>
  "meta_prompt_b =
    [0x27, 0x2E, 0x20, 0x41E, 0x43D, 0x43E, 0x20, 0x434, 0x43E, 0x43B, 0x436, 0x43D,
     0x43E, 0x20, 0x431, 0x44B, 0x442, 0x44C, 0x20, 0x43F, 0x43E, 0x43B, 0x43D, 0x44B,
     0x43C, 0x2C, 0x20, 0x438, 0x43D, 0x444, 0x43E, 0x440, 0x43C, 0x430, 0x442, 0x438,
     0x432, 0x43D, 0x44B, 0x43C, 0x20, 0x438, 0x20, 0x441, 0x43E, 0x434, 0x435, 0x440,
     0x436, 0x430, 0x442, 0x44C, 0x20, 0x43E, 0x441, 0x43D, 0x43E, 0x432, 0x43D, 0x44B,
     0x435, 0x20, 0x43A, 0x43B, 0x44E, 0x447, 0x435, 0x432, 0x44B, 0x435, 0x20, 0x441,
     0x43B, 0x43E, 0x432, 0x430, 0x2E]"

definition post_prompt_a :: pystr where
  \<comment> \<open>lines 102-107, up to the topic (35 code points)\<close>
  "post_prompt_a =
    [0x41D, 0x430, 0x43F, 0x438, 0x448, 0x438, 0x442, 0x435, 0x20, 0x43F, 0x43E, 0x434,
     0x440, 0x43E, 0x431, 0x43D, 0x443, 0x44E, 0x20, 0x441, 0x442, 0x430, 0x442, 0x44C,
     0x44E, 0x20, 0x43D, 0x430, 0x20, 0x442, 0x435, 0x43C, 0x443, 0x20, 0x27]"

definition post_prompt_b :: pystr where
  \<comment> \<open>lines 102-107, between the topic and the news (32 code points)\<close>
  "post_prompt_b =
    [0x27, 0x2C, 0x20, 0x438, 0x441, 0x43F, 0x43E, 0x43B, 0x44C, 0x437, 0x443, 0x44F,
     0x20, 0x43F, 0x43E, 0x441, 0x43B, 0x435, 0x434, 0x43D, 0x438, 0x435, 0x20, 0x43D,
     0x43E, 0x432, 0x43E, 0x441, 0x442, 0x438, 0x3A, 0xA]"

definition post_prompt_c :: pystr where
  \<comment> \<open>lines 102-107, after the news (201 code points)\<close>
  "post_prompt_c =
    [0x2E, 0xA, 0x421, 0x442, 0x430, 0x442, 0x44C, 0x44F, 0x20, 0x434, 0x43E, 0x43B,
     0x436, 0x43D, 0x430, 0x20, 0x431, 0x44B, 0x442, 0x44C, 0x3A, 0xA, 0x31, 0x2E,
     0x20, 0x418, 0x43D, 0x444, 0x43E, 0x440, 0x43C, 0x430, 0x442, 0x438, 0x432, 0x43D,
     0x43E, 0x439, 0x20, 0x438, 0x20, 0x43B, 0x43E, 0x433, 0x438, 0x447, 0x43D, 0x43E,
     0x439, 0xA, 0x33, 0x2E, 0x20, 0x418, 0x43C, 0x435, 0x442, 0x44C, 0x20, 0x447,
     0x435, 0x442, 0x43A, 0x443, 0x44E, 0x20, 0x441, 0x442, 0x440, 0x443, 0x43A, 0x442,
     0x443, 0x440, 0x443, 0x20, 0x441, 0x20, 0x43F, 0x43E, 0x434, 0x437, 0x430, 0x433,
     0x43E, 0x43B, 0x43E, 0x432, 0x43A, 0x430, 0x43C, 0x438, 0xA, 0x35, 0x2E, 0x20,
     0x418, 0x43C, 0x435, 0x442, 0x44C, 0x20, 0x432, 0x441, 0x442, 0x443, 0x43F, 0x43B,
     0x435, 0x43D, 0x438, 0x435, 0x2C, 0x20, 0x43E, 0x441, 0x43D, 0x43E, 0x432, 0x43D,
     0x443, 0x44E, 0x20, 0x447, 0x430, 0x441, 0x442, 0x44C, 0x20, 0x438, 0x20, 0x437,
     0x430, 0x43A, 0x43B, 0x44E, 0x447, 0x435, 0x43D, 0x438, 0x435, 0xA, 0x38, 0x2E,
     0x20, 0x422, 0x435, 0x43A, 0x441, 0x442, 0x20, 0x434, 0x43E, 0x43B, 0x436, 0x435,
     0x43D, 0x20, 0x431, 0x44B, 0x442, 0x44C, 0x20, 0x43B, 0x435, 0x433, 0x43A, 0x438,
     0x43C, 0x20, 0x434, 0x43B, 0x44F, 0x20, 0x432, 0x43E, 0x441, 0x43F, 0x440, 0x438,
     0x44F, 0x442, 0x438, 0x44F, 0x20, 0x438, 0x20, 0x441, 0x43E, 0x434, 0x435, 0x440,
     0x436, 0x430, 0x442, 0x435, 0x43B, 0x44C, 0x43D, 0x44B, 0x43C]"

section \<open>Configuration and the outside world\<close>

text \<open>
  The two module-level variables read once by \<^verbatim>\<open>os.getenv\<close> (lines 14-15): \<open>None\<close>
  when the variable is absent. \<^verbatim>\<open>if not KEY\<close> is true for \<open>None\<close> and for the empty
  string.
\<close>

record config =
  OPENAI_API_KEY :: "pystr option"
  CURRENTS_API_KEY :: "pystr option"

definition key_truthy :: "pystr option \<Rightarrow> bool" where
  "key_truthy k = (case k of None \<Rightarrow> False | Some s \<Rightarrow> s \<noteq> [])"

text \<open>
  What \<^verbatim>\<open>requests.get\<close> gives back: the status code, \<^verbatim>\<open>response.text\<close>, and the
  result of \<^verbatim>\<open>response.json()\<close>, which is \<open>None\<close> where the body is not a JSON
  document and the call raises.
\<close>

record response =
  status_code :: int
  text_of :: pystr
  json_of :: "pyval option"

text \<open>
  The keyword arguments of \<^verbatim>\<open>openai.ChatCompletion.create\<close> and the part of its
  result that \<^verbatim>\<open>.choices[0].message.content\<close> reads. A message is the dict
  \<^verbatim>\<open>{"role": ..., "content": ...}\<close>; the decimal literals 0.5 and 0.6 are rationals.
\<close>

record chat_request =
  model :: pystr
  messages :: "(pystr \<times> pystr) list list"
  max_tokens :: int
  temperature :: rat
  stop :: "pystr list option"
  presence_penalty :: "rat option"
  frequency_penalty :: "rat option"

record message =
  content :: "pystr option"

record choice =
  message :: message

record chat_response =
  choices :: "choice list"

text \<open>
  The outbound calls are the only effects. The state threaded through the functions is
  the log of the calls made so far, each with what it returned. The two endpoints are
  parameters: given the log so far and the request, the news endpoint answers with a
  response or with none (a network failure, where \<^verbatim>\<open>requests.get\<close> raises), and the
  completion endpoint answers with a result or with the text \<^verbatim>\<open>str(exc)\<close> of the
  exception that \<^verbatim>\<open>create\<close> raises.
\<close>

datatype call =
    NewsCall pystr "(pystr \<times> pystr) list" "response option"
  | CompletionCall chat_request "pystr + chat_response"

fun is_completion :: "call \<Rightarrow> bool" where
  "is_completion (CompletionCall _ _) = True"
| "is_completion (NewsCall _ _ _) = False"

record env =
  news_endpoint :: "call list \<Rightarrow> pystr \<Rightarrow> (pystr \<times> pystr) list \<Rightarrow> response option"
  completion_endpoint :: "call list \<Rightarrow> chat_request \<Rightarrow> pystr + chat_response"

definition requests_get ::
  "env \<Rightarrow> pystr \<Rightarrow> (pystr \<times> pystr) list \<Rightarrow> call list \<Rightarrow> response option \<times> call list" where
  "requests_get env url params tr =
     (let r = news_endpoint env tr url params in (r, tr @ [NewsCall url params r]))"

definition ChatCompletion_create ::
  "env \<Rightarrow> chat_request \<Rightarrow> call list \<Rightarrow> (pystr + chat_response) \<times> call list" where
  "ChatCompletion_create env req tr =
     (let r = completion_endpoint env tr req in (r, tr @ [CompletionCall req r]))"

section \<open>\<^verbatim>\<open>get_recent_news\<close>\<close>

definition news_url :: pystr where
  "news_url = ascii ''https://api.currentsapi.services/v1/latest-news''"

definition news_params :: "pystr \<Rightarrow> pystr \<Rightarrow> (pystr \<times> pystr) list" where
  "news_params topic key =
     [(ascii ''language'', ascii ''ru''),
      (ascii ''keywords'', topic),
      (ascii ''apiKey'', key)]"

text \<open>
  Line 44, \<^verbatim>\<open>response.json().get("news", [])\<close>: the decoder raises on a body that is
  not JSON, and only a dict has \<^verbatim>\<open>get\<close>.
\<close>

definition json_get_news :: "pyval option \<Rightarrow> exn + pyval" where
  "json_get_news j =
     (case j of
        None \<Rightarrow> Inl JSONDecodeError
      | Some (PDict kvs) \<Rightarrow>
          Inr (case map_of kvs (ascii ''news'') of None \<Rightarrow> PList [] | Some v \<Rightarrow> v)
      | Some _ \<Rightarrow> Inl AttributeError)"

text \<open>
  Line 48, \<^verbatim>\<open>news_data[:5]\<close>: a list gives its first five elements, a string its
  first five characters; nothing else that is truthy can be sliced. (A non-empty dict
  raises \<^verbatim>\<open>TypeError\<close>, and \<^verbatim>\<open>KeyError\<close> from Python 3.12 on; the model takes
  the former.)
\<close>

fun slice5 :: "pyval \<Rightarrow> exn + pyval list" where
  "slice5 (PList xs) = Inr (take 5 xs)"
| "slice5 (PStr s) = Inr (map (\<lambda>c. PStr [c]) (take 5 s))"
| "slice5 _ = Inl TypeError"

text \<open>\<^verbatim>\<open>article["title"]\<close>: a dict without the key raises, and so does any other value.\<close>

fun article_title :: "pyval \<Rightarrow> exn + pyval" where
  "article_title (PDict kvs) =
     (case map_of kvs (ascii ''title'') of None \<Rightarrow> Inl KeyError | Some v \<Rightarrow> Inr v)"
| "article_title _ = Inl TypeError"

text \<open>\<^verbatim>\<open>str.join\<close> accepts only strings.\<close>

fun str_item :: "pyval \<Rightarrow> exn + pystr" where
  "str_item (PStr s) = Inr s"
| "str_item _ = Inl TypeError"

text \<open>Running a step over a list, stopping at the first exception.\<close>

fun collect :: "('a \<Rightarrow> exn + 'b) \<Rightarrow> 'a list \<Rightarrow> exn + 'b list" where
  "collect f [] = Inr []"
| "collect f (x # xs) =
     (case f x of
        Inl e \<Rightarrow> Inl e
      | Inr y \<Rightarrow> (case collect f xs of Inl e \<Rightarrow> Inl e | Inr ys \<Rightarrow> Inr (y # ys)))"

fun join :: "pystr \<Rightarrow> pystr list \<Rightarrow> pystr" where
  "join sep [] = []"
| "join sep [s] = s"
| "join sep (s # t # ts) = s @ sep @ join sep (t # ts)"

text \<open>
  Lines 45-48. \<^verbatim>\<open>join\<close> first runs the generator to its end, so an article without a
  title raises before any title is checked to be a string.
\<close>

definition news_digest :: "pyval \<Rightarrow> exn + pystr" where
  "news_digest news_data =
     (if \<not> truthy news_data then Inr NO_NEWS
      else case slice5 news_data of
        Inl e \<Rightarrow> Inl e
      | Inr articles \<Rightarrow>
          (case collect article_title articles of
             Inl e \<Rightarrow> Inl e
           | Inr titles \<Rightarrow>
               (case collect str_item titles of
                  Inl e \<Rightarrow> Inl e
                | Inr lines \<Rightarrow> Inr (join [10] lines))))"

text \<open>
  Lines 25-48. Past the guard of line 26 the key is a non-empty string. The function
  returns its result and the log.
\<close>

definition get_recent_news ::
  "config \<Rightarrow> env \<Rightarrow> pystr \<Rightarrow> call list \<Rightarrow> (exn + pystr) \<times> call list" where
  "get_recent_news cfg env topic tr =
     (if \<not> key_truthy (CURRENTS_API_KEY cfg)
      then (Inl (HTTPException 500 CURRENTS_KEY_MISSING), tr)
      else
        (case requests_get env news_url (news_params topic (the (CURRENTS_API_KEY cfg))) tr of
           (None, tr') \<Rightarrow> (Inl RequestException, tr')
         | (Some response, tr') \<Rightarrow>
             if status_code response \<noteq> 200
             then (Inl (HTTPException 500 (FETCH_ERROR_PREFIX @ text_of response)), tr')
             else
               (case json_get_news (json_of response) of
                  Inl e \<Rightarrow> (Inl e, tr')
                | Inr news_data \<Rightarrow> (news_digest news_data, tr'))))"

section \<open>\<^verbatim>\<open>generate_content\<close>\<close>

text \<open>
  \<^verbatim>\<open>str.strip()\<close> without arguments removes the characters that Python counts as
  white space from both ends.
\<close>

definition isspace :: "nat \<Rightarrow> bool" where
  "isspace c =
     ((9 \<le> c \<and> c \<le> 13) \<or> (28 \<le> c \<and> c \<le> 32) \<or> c = 133 \<or> c = 160 \<or> c = 5760 \<or>
      (8192 \<le> c \<and> c \<le> 8202) \<or> c = 8232 \<or> c = 8233 \<or> c = 8239 \<or> c = 8287 \<or>
      c = 12288)"

definition strip :: "pystr \<Rightarrow> pystr" where
  "strip s = rev (dropWhile isspace (rev (dropWhile isspace s)))"

text \<open>The three requests, lines 60-74, 78-92 and 96-114.\<close>

definition title_request :: "pystr \<Rightarrow> pystr \<Rightarrow> chat_request" where
  "title_request topic recent_news =
     \<lparr>model = ascii ''gpt-4o-mini'',
      messages =
        [[(ascii ''role'', ascii ''user''),
          (ascii ''content'',
           title_prompt_a @ topic @ title_prompt_b @ recent_news @ title_prompt_c)]],
      max_tokens = 60,
      temperature = 1 / 2,
      stop = Some [[10]],
      presence_penalty = None,
      frequency_penalty = None\<rparr>"

definition meta_request :: "pystr \<Rightarrow> chat_request" where
  "meta_request title =
     \<lparr>model = ascii ''gpt-4o-mini'',
      messages =
        [[(ascii ''role'', ascii ''user''),
          (ascii ''content'', meta_prompt_a @ title @ meta_prompt_b)]],
      max_tokens = 120,
      temperature = 1 / 2,
      stop = Some [ascii ''.''],
      presence_penalty = None,
      frequency_penalty = None\<rparr>"

definition post_request :: "pystr \<Rightarrow> pystr \<Rightarrow> chat_request" where
  "post_request topic recent_news =
     \<lparr>model = ascii ''gpt-4o-mini'',
      messages =
        [[(ascii ''role'', ascii ''user''),
          (ascii ''content'',
           post_prompt_a @ topic @ post_prompt_b @ recent_news @ post_prompt_c)]],
      max_tokens = 100,
      temperature = 1 / 2,
      stop = None,
      presence_penalty = Some (6 / 10),
      frequency_penalty = Some (6 / 10)\<rparr>"

text \<open>
  The texts of the two exceptions that reading a result can raise: \<^verbatim>\<open>IndexError\<close> on
  an empty list of choices, and \<^verbatim>\<open>AttributeError\<close> on a content that is \<^verbatim>\<open>None\<close>
  (the apostrophe is code point 39).
\<close>

definition index_error_text :: pystr where
  "index_error_text = ascii ''list index out of range''"

definition none_strip_text :: pystr where
  "none_strip_text =
     [39] @ ascii ''NoneType'' @ [39] @ ascii '' object has no attribute '' @
     [39] @ ascii ''strip'' @ [39]"

text \<open>
  \<^verbatim>\<open>.choices[0].message.content.strip()\<close> on what \<^verbatim>\<open>create\<close> gave: \<open>Inl\<close> carries
  \<^verbatim>\<open>str(exc)\<close> of the exception raised, by the call itself, by indexing an empty
  list of choices, or by \<^verbatim>\<open>strip\<close> on a content that is \<^verbatim>\<open>None\<close>.
\<close>

definition completion_text :: "pystr + chat_response \<Rightarrow> pystr + pystr" where
  "completion_text r =
     (case r of
        Inl exc \<Rightarrow> Inl exc
      | Inr resp \<Rightarrow>
          (case choices resp of
             [] \<Rightarrow> Inl index_error_text
           | ch # _ \<Rightarrow>
               (case content (message ch) of
                  None \<Rightarrow> Inl none_strip_text
                | Some s \<Rightarrow> Inr (strip s))))"

text \<open>The handler of lines 123-128.\<close>

definition generation_error :: "pystr \<Rightarrow> exn" where
  "generation_error exc = HTTPException 500 (GENERATION_ERROR_PREFIX @ exc)"

text \<open>Lines 51-128. The result is the dict of lines 118-122.\<close>

definition generate_content ::
  "config \<Rightarrow> env \<Rightarrow> pystr \<Rightarrow> call list \<Rightarrow> (exn + (pystr \<times> pystr) list) \<times> call list" where
  "generate_content cfg env topic tr =
     (if \<not> key_truthy (OPENAI_API_KEY cfg)
      then (Inl (HTTPException 500 OPENAI_KEY_MISSING), tr)
      else
        (case get_recent_news cfg env topic tr of
           (Inl e, tr1) \<Rightarrow> (Inl e, tr1)
         | (Inr recent_news, tr1) \<Rightarrow>
             (case ChatCompletion_create env (title_request topic recent_news) tr1 of
                (r1, tr2) \<Rightarrow>
                  (case completion_text r1 of
                     Inl exc \<Rightarrow> (Inl (generation_error exc), tr2)
                   | Inr title \<Rightarrow>
                       (case ChatCompletion_create env (meta_request title) tr2 of
                          (r2, tr3) \<Rightarrow>
                            (case completion_text r2 of
                               Inl exc \<Rightarrow> (Inl (generation_error exc), tr3)
                             | Inr meta_description \<Rightarrow>
                                 (case ChatCompletion_create env
                                         (post_request topic recent_news) tr3 of
                                    (r3, tr4) \<Rightarrow>
                                      (case completion_text r3 of
                                         Inl exc \<Rightarrow> (Inl (generation_error exc), tr4)
                                       | Inr post_content \<Rightarrow>
                                           (Inr [(ascii ''title'', title),
                                                 (ascii ''meta_description'', meta_description),
                                                 (ascii ''post_content'', post_content)],
                                            tr4)))))))))"

section \<open>The request boundary\<close>



text \<open>
  What the framework sends for the outcome of the endpoint function: a returned dict
  is the JSON body of a 200 response; an \<open>HTTPException\<close> becomes a response with its
  status code and the body \<^verbatim>\<open>{"detail": detail}\<close>; any other exception reaches the
  server's error middleware, which answers 500 with a fixed plain text.
\<close>

datatype body = JSON pyval | PlainText pystr

record http_response =
  status :: int
  body :: body

definition respond :: "exn + (pystr \<times> pystr) list \<Rightarrow> http_response" where
  "respond outcome =
     (case outcome of
        Inr d \<Rightarrow> \<lparr>status = 200, body = JSON (PDict (map (\<lambda>(k, v). (k, PStr v)) d))\<rparr>
      | Inl (HTTPException code detail) \<Rightarrow>
          \<lparr>status = code, body = JSON (PDict [(ascii ''detail'', PStr detail)])\<rparr>
      | Inl _ \<Rightarrow> \<lparr>status = 500, body = PlainText (ascii ''Internal Server Error'')\<rparr>)"

text \<open>The field names of a response body.\<close>

fun body_fields :: "body \<Rightarrow> pystr list" where
  "body_fields (JSON (PDict kvs)) = map fst kvs"
| "body_fields _ = []"

section \<open>Observations used in the statements\<close>

text \<open>
  The title an upstream article carries, where it is an object with a string under
  \<^verbatim>\<open>"title"\<close>, and the lines of a digest: the pieces between its newlines.
\<close>

fun upstream_title :: "pyval \<Rightarrow> pystr option" where
  "upstream_title (PDict kvs) =
     (case map_of kvs (ascii ''title'') of Some (PStr t) \<Rightarrow> Some t | _ \<Rightarrow> None)"
| "upstream_title _ = None"

fun lines_of :: "pystr \<Rightarrow> pystr list" where
  "lines_of [] = [[]]"
| "lines_of (c # cs) =
     (if c = 10 then [] # lines_of cs
      else (case lines_of cs of [] \<Rightarrow> [[c]] | l # ls \<Rightarrow> (c # l) # ls))"

text \<open>The content that \<^verbatim>\<open>.choices[0].message.content\<close> reads, where there is one.\<close>

definition first_content :: "chat_response \<Rightarrow> pystr option" where
  "first_content resp = (case choices resp of [] \<Rightarrow> None | ch # _ \<Rightarrow> content (message ch))"

text \<open>The calls that a run added to the log.\<close>

definition calls_since :: "call list \<Rightarrow> call list \<Rightarrow> call list" where
  "calls_since tr tr' = drop (length tr) tr'"

section \<open>Example inputs\<close>

definition cfg_both :: config where
  "cfg_both =
     \<lparr>OPENAI_API_KEY = Some (ascii ''sk-test''), CURRENTS_API_KEY = Some (ascii ''news-key'')\<rparr>"

definition cfg_no_news_key :: config where
  "cfg_no_news_key = \<lparr>OPENAI_API_KEY = Some (ascii ''sk-test''), CURRENTS_API_KEY = None\<rparr>"

definition cfg_no_model_key :: config where
  "cfg_no_model_key = \<lparr>OPENAI_API_KEY = None, CURRENTS_API_KEY = Some (ascii ''news-key'')\<rparr>"

definition quoted :: "pystr \<Rightarrow> pystr" where
  "quoted s = [34] @ s @ [34]"

definition article :: "pystr \<Rightarrow> pyval" where
  "article t = PDict [(ascii ''title'', PStr t)]"

definition news_body :: "pystr list \<Rightarrow> pystr" where
  "news_body ts =
     ascii ''{'' @ quoted (ascii ''news'') @ ascii '': ['' @
     join (ascii '', '')
       (map (\<lambda>t. ascii ''{'' @ quoted (ascii ''title'') @ ascii '': '' @ quoted t @ ascii ''}'') ts) @
     ascii '']}''"

definition news_response :: "int \<Rightarrow> pystr list \<Rightarrow> response" where
  "news_response code ts =
     \<lparr>status_code = code,
      text_of = news_body ts,
      json_of = Some (PDict [(ascii ''news'', PList (map article ts))])\<rparr>"

definition six_titles :: "pystr list" where
  "six_titles =
     [ascii ''t1'', ascii ''t2'', ascii ''t3'', ascii ''t4'', ascii ''t5'', ascii ''t6'']"

definition resp_no_field :: response where
  "resp_no_field =
     \<lparr>status_code = 200,
      text_of = ascii ''{'' @ quoted (ascii ''status'') @ ascii '': '' @ quoted (ascii ''ok'') @ ascii ''}'',
      json_of = Some (PDict [(ascii ''status'', PStr (ascii ''ok''))])\<rparr>"

definition resp_not_found :: response where
  "resp_not_found =
     \<lparr>status_code = 404, text_of = ascii ''Not Found'', json_of = None\<rparr>"

definition reply :: "pystr \<Rightarrow> pystr + chat_response" where
  "reply s = Inr \<lparr>choices = [\<lparr>message = \<lparr>content = Some s\<rparr>\<rparr>]\<rparr>"

definition env_of :: "response option \<Rightarrow> pystr + chat_response \<Rightarrow> env" where
  "env_of r c = \<lparr>news_endpoint = (\<lambda>_ _ _. r), completion_endpoint = (\<lambda>_ _. c)\<rparr>"

text \<open>An environment whose second completion call, the one for 120 tokens, fails.\<close>

definition env_meta_fails :: env where
  "env_meta_fails =
     \<lparr>news_endpoint = (\<lambda>_ _ _. Some (news_response 200 [])),
      completion_endpoint =
        (\<lambda>_ req. if max_tokens req = 120 then Inl (ascii ''quota'') else reply (ascii ''ok''))\<rparr>"

text \<open>
  One article whose title holds a newline; in the JSON text the newline is the escape
  of a backslash (code point 92) and the letter n.
\<close>

definition resp_newline_title :: response where
  "resp_newline_title =
     \<lparr>status_code = 200,
      text_of =
        ascii ''{'' @ quoted (ascii ''news'') @ ascii '': [{'' @ quoted (ascii ''title'') @
        ascii '': '' @ quoted ([97, 92] @ ascii ''nb'') @ ascii ''}]}'',
      json_of = Some (PDict [(ascii ''news'', PList [article [97, 10, 98]])])\<rparr>"

definition ok_reply :: "pystr + chat_response" where
  "ok_reply = reply (ascii ''ok'')"

definition env_no_news :: env where
  "env_no_news = env_of (Some (news_response 200 [])) ok_reply"

definition env_six :: env where
  "env_six = env_of (Some (news_response 200 six_titles)) ok_reply"

definition env_created :: env where
  "env_created = env_of (Some (news_response 201 [ascii ''t1''])) ok_reply"

definition env_not_found :: env where
  "env_not_found = env_of (Some resp_not_found) ok_reply"

definition env_no_field :: env where
  "env_no_field = env_of (Some resp_no_field) ok_reply"

definition env_newline :: env where
  "env_newline = env_of (Some resp_newline_title) ok_reply"

text \<open>An environment whose completions all come back with an empty content.\<close>

definition env_blank :: env where
  "env_blank = env_of (Some (news_response 200 [])) (reply [])"

text \<open>
  A news endpoint that answers 201, a 2xx status, with an empty list of articles, and
  one that cannot be reached at all.
\<close>

definition env_created_empty :: env where
  "env_created_empty = env_of (Some (news_response 201 [])) ok_reply"


section \<open>Evaluating the examples\<close>

lemmas run_defs =
  generate_content_def get_recent_news_def requests_get_def ChatCompletion_create_def Let_def
  key_truthy_def json_get_news_def news_digest_def completion_text_def strip_def isspace_def
  ascii_def env_of_def news_response_def article_def reply_def ok_reply_def cfg_both_def
  calls_since_def

lemma key_both: "CURRENTS_API_KEY cfg_both = Some (ascii ''news-key'')"
  by (simp add: cfg_both_def)

lemma key_not_empty: "ascii ''news-key'' \<noteq> []"
  by (simp add: ascii_def)

lemma model_key_both: "key_truthy (OPENAI_API_KEY cfg_both)"
  by (simp add: cfg_both_def key_truthy_def ascii_def)

lemma endpoint_env_of: "news_endpoint (env_of r c) tr url params = r"
  by (simp add: env_of_def)

lemma run_six:
  "fst (generate_content cfg_both env_six (ascii ''ai'') []) =
     Inr [(ascii ''title'', ascii ''ok''), (ascii ''meta_description'', ascii ''ok''),
          (ascii ''post_content'', ascii ''ok'')]"
  by (simp add: run_defs env_six_def six_titles_def)

lemma run_meta_fails:
  "generate_content cfg_both env_meta_fails (ascii ''ai'') [] =
     (Inl (generation_error (ascii ''quota'')),
      [NewsCall news_url (news_params (ascii ''ai'') (ascii ''news-key'')) (Some (news_response 200 [])),
       CompletionCall (title_request (ascii ''ai'') NO_NEWS) ok_reply,
       CompletionCall (meta_request (ascii ''ok'')) (Inl (ascii ''quota''))])"
  by (simp add: run_defs env_meta_fails_def title_request_def meta_request_def)

lemma run_not_found:
  "get_recent_news cfg_both env_not_found (ascii ''ai'') [] =
     (Inl (HTTPException 500 (FETCH_ERROR_PREFIX @ ascii ''Not Found'')),
      [NewsCall news_url (news_params (ascii ''ai'') (ascii ''news-key'')) (Some resp_not_found)])"
  by (simp add: get_recent_news_def key_truthy_def cfg_both_def requests_get_def env_of_def
      env_not_found_def resp_not_found_def Let_def) (simp add: ascii_def)

section \<open>The news fetcher\<close>

lemma get_recent_news_response:
  assumes "CURRENTS_API_KEY cfg = Some key" and "key \<noteq> []"
    and "news_endpoint env tr news_url (news_params topic key) = Some r"
  shows "get_recent_news cfg env topic tr =
     ((if status_code r \<noteq> 200 then Inl (HTTPException 500 (FETCH_ERROR_PREFIX @ text_of r))
       else case json_get_news (json_of r) of Inl e \<Rightarrow> Inl e | Inr news_data \<Rightarrow> news_digest news_data),
      tr @ [NewsCall news_url (news_params topic key) (Some r)])"
  using assms
  by (simp add: get_recent_news_def key_truthy_def requests_get_def Let_def split: sum.splits)

text \<open>
  \<^bold>\<open>C8.\<close> With the news key unset (absent or empty), \<open>get_recent_news\<close> raises the
  configuration error of line 27 and leaves the log of outbound calls as it was: no call
  is made.
\<close>

theorem missing_news_key_no_call:
  "\<not> key_truthy (CURRENTS_API_KEY cfg) \<Longrightarrow>
   get_recent_news cfg env topic tr = (Inl (HTTPException 500 CURRENTS_KEY_MISSING), tr)"
  by (simp add: get_recent_news_def)

theorem missing_news_key_no_call_witness:
  "\<not> key_truthy (CURRENTS_API_KEY cfg_no_news_key) \<and>
   get_recent_news cfg_no_news_key env_six (ascii ''ai'') [] =
     (Inl (HTTPException 500 CURRENTS_KEY_MISSING), [])"
proof -
  have h: "\<not> key_truthy (CURRENTS_API_KEY cfg_no_news_key)"
    by (simp add: cfg_no_news_key_def key_truthy_def)
  show ?thesis using h missing_news_key_no_call [OF h] by simp
qed

text \<open>
  \<^bold>\<open>C1.\<close> As amended: with the news key set, a response of status 200 whose
  \<^verbatim>\<open>news\<close> is the empty list makes \<open>get_recent_news\<close> return exactly the sentinel of
  line 46, which is not the empty string. The claim as stated fails at status 201 with
  no articles: line 38 takes every status but 200 as a failure, and the fetch error is
  raised in place of the sentinel.
\<close>

theorem no_articles_sentinel:
  assumes "CURRENTS_API_KEY cfg = Some key" and "key \<noteq> []"
    and "news_endpoint env tr news_url (news_params topic key) = Some r"
    and "status_code r = 200"
    and "json_of r = Some (PDict kvs)"
    and "map_of kvs (ascii ''news'') = Some (PList [])"
  shows "fst (get_recent_news cfg env topic tr) = Inr NO_NEWS \<and> NO_NEWS \<noteq> []"
  using assms
  by (simp add: get_recent_news_response json_get_news_def news_digest_def NO_NEWS_def)

theorem no_articles_sentinel_witness:
  "CURRENTS_API_KEY cfg_both = Some (ascii ''news-key'') \<and> ascii ''news-key'' \<noteq> [] \<and>
   news_endpoint env_no_news [] news_url (news_params (ascii ''ai'') (ascii ''news-key'')) =
     Some (news_response 200 []) \<and>
   status_code (news_response 200 []) = 200 \<and>
   json_of (news_response 200 []) = Some (PDict [(ascii ''news'', PList [])]) \<and>
   map_of [(ascii ''news'', PList [])] (ascii ''news'') = Some (PList []) \<and>
   fst (get_recent_news cfg_both env_no_news (ascii ''ai'') []) = Inr NO_NEWS \<and> NO_NEWS \<noteq> []"
proof -
  have e: "news_endpoint env_no_news [] news_url (news_params (ascii ''ai'') (ascii ''news-key'')) =
     Some (news_response 200 [])"
    by (simp add: env_no_news_def endpoint_env_of)
  have s: "status_code (news_response 200 []) = 200"
    by (simp add: news_response_def)
  have j: "json_of (news_response 200 []) = Some (PDict [(ascii ''news'', PList [])])"
    by (simp add: news_response_def)
  have m: "map_of [(ascii ''news'', PList [])] (ascii ''news'') = Some (PList [])"
    by simp
  show ?thesis
    using key_both key_not_empty e s j m
      no_articles_sentinel [OF key_both key_not_empty e s j m]
    by simp
qed

theorem created_no_articles_counterexample:
  "status_code (news_response 201 []) = 201 \<and>
   200 \<le> status_code (news_response 201 []) \<and>
   status_code (news_response 201 []) < 300 \<and>
   json_of (news_response 201 []) = Some (PDict [(ascii ''news'', PList [])]) \<and>
   fst (get_recent_news cfg_both env_created_empty (ascii ''ai'') []) =
     Inl (HTTPException 500 (FETCH_ERROR_PREFIX @ text_of (news_response 201 []))) \<and>
   fst (get_recent_news cfg_both env_created_empty (ascii ''ai'') []) \<noteq> Inr NO_NEWS"
  by (simp add: get_recent_news_def key_truthy_def cfg_both_def requests_get_def env_of_def
      env_created_empty_def ok_reply_def news_response_def ascii_def Let_def)

text \<open>
  \<^bold>\<open>C10.\<close> With the news key set, a response of status 200 whose JSON object has no
  \<^verbatim>\<open>news\<close> field, or has the empty list there, makes \<open>get_recent_news\<close> return the
  sentinel and raise nothing: line 44 reads a missing field as the empty list.
\<close>

theorem missing_news_field_sentinel:
  assumes "CURRENTS_API_KEY cfg = Some key" and "key \<noteq> []"
    and "news_endpoint env tr news_url (news_params topic key) = Some r"
    and "status_code r = 200"
    and "json_of r = Some (PDict kvs)"
    and "map_of kvs (ascii ''news'') = None \<or> map_of kvs (ascii ''news'') = Some (PList [])"
  shows "json_get_news (json_of r) = Inr (PList []) \<and>
         get_recent_news cfg env topic tr =
           (Inr NO_NEWS, tr @ [NewsCall news_url (news_params topic key) (Some r)])"
  using assms
  by (auto simp add: get_recent_news_response json_get_news_def news_digest_def)

theorem missing_news_field_sentinel_witness:
  "CURRENTS_API_KEY cfg_both = Some (ascii ''news-key'') \<and> ascii ''news-key'' \<noteq> [] \<and>
   news_endpoint env_no_field [] news_url (news_params (ascii ''ai'') (ascii ''news-key'')) =
     Some resp_no_field \<and>
   status_code resp_no_field = 200 \<and>
   json_of resp_no_field = Some (PDict [(ascii ''status'', PStr (ascii ''ok''))]) \<and>
   map_of [(ascii ''status'', PStr (ascii ''ok''))] (ascii ''news'') = None \<and>
   get_recent_news cfg_both env_no_field (ascii ''ai'') [] =
     (Inr NO_NEWS,
      [NewsCall news_url (news_params (ascii ''ai'') (ascii ''news-key'')) (Some resp_no_field)])"
proof -
  have e: "news_endpoint env_no_field [] news_url (news_params (ascii ''ai'') (ascii ''news-key'')) =
     Some resp_no_field"
    by (simp add: env_no_field_def endpoint_env_of)
  have s: "status_code resp_no_field = 200"
    by (simp add: resp_no_field_def)
  have j: "json_of resp_no_field = Some (PDict [(ascii ''status'', PStr (ascii ''ok''))])"
    by (simp add: resp_no_field_def)
  have m: "map_of [(ascii ''status'', PStr (ascii ''ok''))] (ascii ''news'') = None"
    by (simp add: ascii_def)
  then have m': "map_of [(ascii ''status'', PStr (ascii ''ok''))] (ascii ''news'') = None \<or>
      map_of [(ascii ''status'', PStr (ascii ''ok''))] (ascii ''news'') = Some (PList [])"
    by (rule disjI1)
  show ?thesis
    using key_both key_not_empty e s j m
      missing_news_field_sentinel [OF key_both key_not_empty e s j m']
    by simp
qed

lemma collect_article_title_no_http:
  "collect article_title xs \<noteq> Inl (HTTPException s d)"
proof (induction xs)
  case Nil
  show ?case by simp
next
  case (Cons x xs)
  have "article_title x \<noteq> Inl (HTTPException s d)"
    by (cases x) (simp_all split: option.splits)
  with Cons show ?case by (auto split: sum.splits)
qed

lemma collect_str_item_no_http:
  "collect str_item xs \<noteq> Inl (HTTPException s d)"
proof (induction xs)
  case Nil
  show ?case by simp
next
  case (Cons x xs)
  have "str_item x \<noteq> Inl (HTTPException s d)"
    by (cases x) simp_all
  with Cons show ?case by (auto split: sum.splits)
qed

lemma slice5_no_http: "slice5 v \<noteq> Inl (HTTPException s d)"
  by (cases v) simp_all

lemma news_digest_no_http: "news_digest v \<noteq> Inl (HTTPException s d)"
  using slice5_no_http [of v s d] collect_article_title_no_http [of _ s d]
    collect_str_item_no_http [of _ s d]
  by (auto simp add: news_digest_def split: sum.splits)

lemma json_get_news_no_http: "json_get_news j \<noteq> Inl (HTTPException s d)"
  by (auto simp add: json_get_news_def split: option.splits pyval.splits)

text \<open>
  \<^bold>\<open>C3.\<close> As amended: with the news key set and a response received, \<open>get_recent_news\<close>
  raises the fetch error of line 40, whose detail is the fixed prefix followed by the
  response body, exactly when the status code is not 200; at status 200 it raises no
  \<open>HTTPException\<close> at all. The claim as stated fails at status 201, which is a 2xx
  status and is treated as a failure.
\<close>

theorem fetch_error_iff_not_200:
  assumes "CURRENTS_API_KEY cfg = Some key" and "key \<noteq> []"
    and "news_endpoint env tr news_url (news_params topic key) = Some r"
  shows "(status_code r \<noteq> 200 \<longrightarrow>
            fst (get_recent_news cfg env topic tr) =
              Inl (HTTPException 500 (FETCH_ERROR_PREFIX @ text_of r))) \<and>
         (status_code r = 200 \<longrightarrow>
            (\<forall>s d. fst (get_recent_news cfg env topic tr) \<noteq> Inl (HTTPException s d)))"
  using news_digest_no_http json_get_news_no_http
  by (auto simp add: get_recent_news_response [OF assms] split: sum.splits)

theorem fetch_error_iff_not_200_witness:
  "CURRENTS_API_KEY cfg_both = Some (ascii ''news-key'') \<and> ascii ''news-key'' \<noteq> [] \<and>
   news_endpoint env_not_found []
     news_url (news_params (ascii ''ai'') (ascii ''news-key'')) = Some resp_not_found \<and>
   status_code resp_not_found = 404 \<and>
   fst (get_recent_news cfg_both env_not_found (ascii ''ai'') []) =
     Inl (HTTPException 500 (FETCH_ERROR_PREFIX @ ascii ''Not Found''))"
proof -
  have k: "CURRENTS_API_KEY cfg_both = Some (ascii ''news-key'')" by (simp add: cfg_both_def)
  have n: "ascii ''news-key'' \<noteq> []" by (simp add: ascii_def)
  have e: "news_endpoint env_not_found []
     news_url (news_params (ascii ''ai'') (ascii ''news-key'')) = Some resp_not_found"
    by (simp add: env_not_found_def env_of_def)
  have s: "status_code resp_not_found = 404" "text_of resp_not_found = ascii ''Not Found''"
    by (simp_all add: resp_not_found_def)
  show ?thesis using k n e s fetch_error_iff_not_200 [OF k n e] by simp
qed

theorem created_status_counterexample:
  "status_code (news_response 201 [ascii ''t1'']) = 201 \<and>
   200 \<le> status_code (news_response 201 [ascii ''t1'']) \<and>
   status_code (news_response 201 [ascii ''t1'']) < 300 \<and>
   json_of (news_response 201 [ascii ''t1'']) =
     Some (PDict [(ascii ''news'', PList [article (ascii ''t1'')])]) \<and>
   fst (get_recent_news cfg_both env_created (ascii ''ai'') []) =
     Inl (HTTPException 500 (FETCH_ERROR_PREFIX @ text_of (news_response 201 [ascii ''t1''])))"
  by (simp add: get_recent_news_def key_truthy_def cfg_both_def requests_get_def env_of_def
      env_created_def news_response_def ascii_def Let_def)

lemma lines_of_not_Nil: "lines_of s \<noteq> []"
  by (induction s) (auto split: list.splits)

lemma lines_of_single: "10 \<notin> set t \<Longrightarrow> lines_of t = [t]"
  by (induction t) auto

lemma lines_of_append: "10 \<notin> set t \<Longrightarrow> lines_of (t @ 10 # rest) = t # lines_of rest"
  by (induction t) auto

lemma lines_of_join:
  "ts \<noteq> [] \<Longrightarrow> list_all (\<lambda>t. 10 \<notin> set t) ts \<Longrightarrow> lines_of (join [10] ts) = ts"
proof (induction "[10::nat]" ts rule: join.induct)
  case 1
  then show ?case by simp
next
  case (2 s)
  then show ?case by (simp add: lines_of_single)
next
  case (3 s t ts)
  then show ?case by (simp add: lines_of_append)
qed

lemma collect_titles:
  "map upstream_title xs = map Some ts \<Longrightarrow> collect article_title xs = Inr (map PStr ts)"
proof (induction xs arbitrary: ts)
  case Nil
  then show ?case by simp
next
  case (Cons x xs)
  from Cons.prems obtain t ts' where ts: "ts = t # ts'"
    and x: "upstream_title x = Some t" and rest: "map upstream_title xs = map Some ts'"
    by (cases ts) auto
  from x have "article_title x = Inr (PStr t)"
    by (cases x) (auto split: option.splits pyval.splits)
  with Cons.IH [OF rest] ts show ?case by simp
qed

lemma collect_strs: "collect str_item (map PStr ts) = Inr ts"
  by (induction ts) auto

lemma news_digest_titles:
  assumes "articles \<noteq> []" and "map upstream_title (take 5 articles) = map Some ts"
  shows "news_digest (PList articles) = Inr (join [10] ts)"
  using assms by (simp add: news_digest_def collect_titles collect_strs)

text \<open>
  \<^bold>\<open>C2.\<close> As amended: with the news key set, a response of status 200 and at least one
  article, where each of the first five articles is an object with a string title,
  \<open>get_recent_news\<close> returns those titles, at most five and in upstream order, joined by
  newline; where no such title contains a newline, the lines of the result are exactly
  those titles. The claim as stated fails for a title that contains a newline: the lines
  of the result are then pieces of a title.
\<close>

theorem digest_of_first_five_titles:
  assumes "CURRENTS_API_KEY cfg = Some key" and "key \<noteq> []"
    and "news_endpoint env tr news_url (news_params topic key) = Some r"
    and "status_code r = 200"
    and "json_of r = Some (PDict kvs)"
    and "map_of kvs (ascii ''news'') = Some (PList articles)"
    and "articles \<noteq> []"
    and "map upstream_title (take 5 articles) = map Some ts"
  shows "fst (get_recent_news cfg env topic tr) = Inr (join [10] ts) \<and>
         length ts = min 5 (length articles) \<and>
         (list_all (\<lambda>t. 10 \<notin> set t) ts \<longrightarrow> lines_of (join [10] ts) = ts)"
proof -
  have "length (map upstream_title (take 5 articles)) = length (map Some ts)"
    using assms(8) by simp
  then have len: "length ts = min 5 (length articles)" by (simp add: min.commute)
  with assms(7) have ne: "ts \<noteq> []" by (cases articles) auto
  have "fst (get_recent_news cfg env topic tr) = Inr (join [10] ts)"
    using assms by (simp add: get_recent_news_response json_get_news_def news_digest_titles)
  with len ne show ?thesis by (simp add: lines_of_join)
qed

theorem digest_of_first_five_titles_witness:
  "CURRENTS_API_KEY cfg_both = Some (ascii ''news-key'') \<and> ascii ''news-key'' \<noteq> [] \<and>
   news_endpoint env_six [] news_url (news_params (ascii ''ai'') (ascii ''news-key'')) =
     Some (news_response 200 six_titles) \<and>
   status_code (news_response 200 six_titles) = 200 \<and>
   json_of (news_response 200 six_titles) =
     Some (PDict [(ascii ''news'', PList (map article six_titles))]) \<and>
   map_of [(ascii ''news'', PList (map article six_titles))] (ascii ''news'') =
     Some (PList (map article six_titles)) \<and>
   map article six_titles \<noteq> [] \<and>
   map upstream_title (take 5 (map article six_titles)) = map Some (take 5 six_titles) \<and>
   fst (get_recent_news cfg_both env_six (ascii ''ai'') []) =
     Inr (ascii ''t1'' @ [10] @ ascii ''t2'' @ [10] @ ascii ''t3'' @ [10] @ ascii ''t4'' @ [10] @
          ascii ''t5'') \<and>
   length (take 5 six_titles) = 5 \<and>
   lines_of (join [10] (take 5 six_titles)) = take 5 six_titles"
proof -
  have e: "news_endpoint env_six [] news_url (news_params (ascii ''ai'') (ascii ''news-key'')) =
     Some (news_response 200 six_titles)"
    by (simp add: env_six_def endpoint_env_of)
  have s: "status_code (news_response 200 six_titles) = 200"
    by (simp add: news_response_def)
  have j: "json_of (news_response 200 six_titles) =
     Some (PDict [(ascii ''news'', PList (map article six_titles))])"
    by (simp add: news_response_def)
  have m: "map_of [(ascii ''news'', PList (map article six_titles))] (ascii ''news'') =
     Some (PList (map article six_titles))"
    by simp
  have n: "map article six_titles \<noteq> []"
    by (simp add: six_titles_def)
  have u: "map upstream_title (take 5 (map article six_titles)) = map Some (take 5 six_titles)"
    by (simp add: six_titles_def article_def)
  have nl: "list_all (\<lambda>t. 10 \<notin> set t) (take 5 six_titles)"
    by (simp add: six_titles_def ascii_def)
  have jn: "join [10] (take 5 six_titles) =
      ascii ''t1'' @ [10] @ ascii ''t2'' @ [10] @ ascii ''t3'' @ [10] @ ascii ''t4'' @ [10] @
          ascii ''t5''"
    by (simp add: six_titles_def)
  have len: "length (six_titles) = 6"
    by (simp add: six_titles_def)
  show ?thesis
    using key_both key_not_empty e s j m n u nl jn len
      digest_of_first_five_titles [OF key_both key_not_empty e s j m n u]
    by simp
qed

theorem newline_title_counterexample:
  "json_of resp_newline_title = Some (PDict [(ascii ''news'', PList [article [97, 10, 98]])]) \<and>
   map upstream_title [article [97, 10, 98]] = [Some [97, 10, 98]] \<and>
   fst (get_recent_news cfg_both env_newline (ascii ''ai'') []) = Inr [97, 10, 98] \<and>
   lines_of [97, 10, 98] = [[97], [98]] \<and>
   [97] \<notin> set [[97, 10, 98]] \<and> [98] \<notin> set [[97, 10, 98 :: nat]]"
  by (simp add: run_defs env_newline_def resp_newline_title_def)

section \<open>The content generator\<close>

lemma get_recent_news_log:
  assumes "get_recent_news cfg env topic tr = (x, tr1)"
  shows "tr1 = tr \<or> (\<exists>u p ro. tr1 = tr @ [NewsCall u p ro])"
  using assms
  by (auto simp add: get_recent_news_def requests_get_def Let_def
      split: if_splits option.splits sum.splits)

lemma get_recent_news_calls:
  assumes "get_recent_news cfg env topic tr = (x, tr1)"
  shows "\<exists>new. tr1 = tr @ new \<and> filter is_completion new = []"
  using get_recent_news_log [OF assms] by auto

lemma get_recent_news_error_kinds:
  assumes "get_recent_news cfg env topic tr = (Inl (HTTPException s d), tr1)"
  shows "s = 500 \<and> (d = CURRENTS_KEY_MISSING \<or> (\<exists>b. d = FETCH_ERROR_PREFIX @ b))"
  using assms news_digest_no_http json_get_news_no_http
  by (auto simp add: get_recent_news_def requests_get_def Let_def
      split: if_splits option.splits sum.splits)

lemma prefixes_differ: "FETCH_ERROR_PREFIX @ b \<noteq> GENERATION_ERROR_PREFIX @ c"
  by (simp add: FETCH_ERROR_PREFIX_def GENERATION_ERROR_PREFIX_def)

lemma missing_differs: "CURRENTS_KEY_MISSING \<noteq> GENERATION_ERROR_PREFIX @ c"
  by (simp add: CURRENTS_KEY_MISSING_def GENERATION_ERROR_PREFIX_def)

lemma respond_generation_error:
  "respond (Inl (generation_error exc)) =
     \<lparr>status = 500, body = JSON (PDict [(ascii ''detail'', PStr (GENERATION_ERROR_PREFIX @ exc))])\<rparr>"
  by (simp add: respond_def generation_error_def)

lemma generate_content_failed_call:
  assumes "generate_content cfg env topic tr = (r, tr')"
    and "CompletionCall req out \<in> set (calls_since tr tr')"
    and "completion_text out = Inl cause"
  shows "r = Inl (generation_error cause)"
proof (cases "key_truthy (OPENAI_API_KEY cfg)")
  case False
  with assms(1) have "tr' = tr" by (simp add: generate_content_def)
  with assms(2) show ?thesis by (simp add: calls_since_def)
next
  case True
  obtain x tr1 where n: "get_recent_news cfg env topic tr = (x, tr1)"
    by (cases "get_recent_news cfg env topic tr") auto
  from get_recent_news_log [OF n]
  have since: "calls_since tr (tr1 @ more) = calls_since tr tr1 @ more"
       and nocomp: "CompletionCall req out \<notin> set (calls_since tr tr1)" for more
    by (auto simp add: calls_since_def)
  show ?thesis
    using assms True n nocomp
    by (auto simp add: generate_content_def ChatCompletion_create_def Let_def since
        split: sum.splits)
qed

lemma completion_text_Inr:
  "completion_text out = Inr t \<Longrightarrow> \<exists>resp c. out = Inr resp \<and> first_content resp = Some c \<and> t = strip c"
  by (auto simp add: completion_text_def first_content_def split: sum.splits list.splits option.splits)

lemma strip_empty_iff: "strip s = [] \<longleftrightarrow> list_all isspace s"
proof
  assume "strip s = []"
  then have a: "\<forall>x\<in>set (dropWhile isspace s). isspace x"
    by (simp add: strip_def dropWhile_eq_Nil_conv)
  have "dropWhile isspace s = []"
  proof (rule ccontr)
    assume ne: "dropWhile isspace s \<noteq> []"
    then have "\<not> isspace (hd (dropWhile isspace s))" by (rule hd_dropWhile)
    moreover have "hd (dropWhile isspace s) \<in> set (dropWhile isspace s)" using ne by simp
    ultimately show False using a by blast
  qed
  then show "list_all isspace s" by (simp add: dropWhile_eq_Nil_conv list_all_iff)
next
  assume "list_all isspace s"
  then have e: "dropWhile isspace s = []" by (simp add: list_all_iff)
  show "strip s = []" unfolding strip_def e by simp
qed

lemma generate_content_success:
  assumes "generate_content cfg env topic tr = (Inr d, tr')"
  shows "\<exists>n q1 r1 q2 r2 q3 r3 t1 t2 t3.
           calls_since tr tr' = [n, CompletionCall q1 r1, CompletionCall q2 r2, CompletionCall q3 r3] \<and>
           \<not> is_completion n \<and>
           completion_text r1 = Inr t1 \<and> completion_text r2 = Inr t2 \<and> completion_text r3 = Inr t3 \<and>
           d = [(ascii ''title'', t1), (ascii ''meta_description'', t2), (ascii ''post_content'', t3)]"
proof -
  from assms have k: "key_truthy (OPENAI_API_KEY cfg)"
    by (auto simp add: generate_content_def split: if_splits)
  obtain x tr1 where n: "get_recent_news cfg env topic tr = (x, tr1)"
    by (cases "get_recent_news cfg env topic tr") auto
  with assms k obtain news where x: "x = Inr news"
    by (cases x) (auto simp add: generate_content_def)
  have "tr1 \<noteq> tr"
    using n x by (auto simp add: get_recent_news_def requests_get_def Let_def
        split: if_splits option.splits sum.splits)
  with get_recent_news_log [OF n] obtain u p ro where tr1: "tr1 = tr @ [NewsCall u p ro]"
    by blast
  show ?thesis
    using assms k n x
    by (auto simp add: generate_content_def ChatCompletion_create_def Let_def tr1 calls_since_def
        split: sum.splits)
qed





text \<open>
  \<^bold>\<open>C6.\<close> With the model key unset (absent or empty), \<open>generate_content\<close> raises the
  configuration error of line 53 and leaves the log as it was: neither the news call nor
  any completion call is made.
\<close>

theorem missing_model_key_no_call:
  "\<not> key_truthy (OPENAI_API_KEY cfg) \<Longrightarrow>
   generate_content cfg env topic tr = (Inl (HTTPException 500 OPENAI_KEY_MISSING), tr)"
  by (simp add: generate_content_def)

theorem missing_model_key_no_call_witness:
  "\<not> key_truthy (OPENAI_API_KEY cfg_no_model_key) \<and>
   generate_content cfg_no_model_key env_six (ascii ''ai'') [] =
     (Inl (HTTPException 500 OPENAI_KEY_MISSING), [])"
proof -
  have h: "\<not> key_truthy (OPENAI_API_KEY cfg_no_model_key)"
    by (simp add: cfg_no_model_key_def key_truthy_def)
  show ?thesis using h missing_model_key_no_call [OF h] by simp
qed

text \<open>
  \<^bold>\<open>C7.\<close> With the model key set, an exception raised by \<open>get_recent_news\<close> leaves
  \<open>generate_content\<close> as it is, with the log that \<open>get_recent_news\<close> left: no completion
  call is in it, and the exception is not one built by the handler of line 125.
\<close>

theorem news_failure_propagates:
  assumes "key_truthy (OPENAI_API_KEY cfg)"
    and "get_recent_news cfg env topic tr = (Inl e, tr1)"
  shows "generate_content cfg env topic tr = (Inl e, tr1) \<and>
         filter is_completion (calls_since tr tr1) = [] \<and>
         (\<forall>exc. e \<noteq> generation_error exc)"
proof -
  have a: "generate_content cfg env topic tr = (Inl e, tr1)"
    using assms by (simp add: generate_content_def)
  obtain new where "tr1 = tr @ new" and "filter is_completion new = []"
    using get_recent_news_calls [OF assms(2)] by blast
  then have b: "filter is_completion (calls_since tr tr1) = []"
    by (simp add: calls_since_def)
  have c: "e \<noteq> generation_error exc" for exc
  proof
    assume "e = generation_error exc"
    then have "get_recent_news cfg env topic tr =
        (Inl (HTTPException 500 (GENERATION_ERROR_PREFIX @ exc)), tr1)"
      using assms(2) by (simp add: generation_error_def)
    from get_recent_news_error_kinds [OF this] show False
      using prefixes_differ missing_differs by metis
  qed
  from a b c show ?thesis by simp
qed

theorem news_failure_propagates_witness:
  "key_truthy (OPENAI_API_KEY cfg_both) \<and>
   get_recent_news cfg_both env_not_found (ascii ''ai'') [] =
     (Inl (HTTPException 500 (FETCH_ERROR_PREFIX @ ascii ''Not Found'')),
      [NewsCall news_url (news_params (ascii ''ai'') (ascii ''news-key'')) (Some resp_not_found)]) \<and>
   generate_content cfg_both env_not_found (ascii ''ai'') [] =
     (Inl (HTTPException 500 (FETCH_ERROR_PREFIX @ ascii ''Not Found'')),
      [NewsCall news_url (news_params (ascii ''ai'') (ascii ''news-key'')) (Some resp_not_found)]) \<and>
   filter is_completion
     (calls_since []
        [NewsCall news_url (news_params (ascii ''ai'') (ascii ''news-key'')) (Some resp_not_found)]) = []"
  using model_key_both run_not_found news_failure_propagates [OF model_key_both run_not_found]
  by simp

text \<open>
  \<^bold>\<open>C4.\<close> If a completion call made by \<open>generate_content\<close> fails, by raising or by a
  result that cannot be read, then \<open>generate_content\<close> raises the generation error of
  line 125 with the text of that failure after the fixed prefix, and the response sent has
  the single field \<^verbatim>\<open>detail\<close>: none of the three content fields.
\<close>

theorem completion_failure_is_generation_error:
  assumes "generate_content cfg env topic tr = (r, tr')"
    and "CompletionCall req out \<in> set (calls_since tr tr')"
    and "completion_text out = Inl cause"
  shows "r = Inl (HTTPException 500 (GENERATION_ERROR_PREFIX @ cause)) \<and>
         respond r =
           \<lparr>status = 500,
            body = JSON (PDict [(ascii ''detail'', PStr (GENERATION_ERROR_PREFIX @ cause))])\<rparr> \<and>
         body_fields (body (respond r)) = [ascii ''detail''] \<and>
         ascii ''title'' \<notin> set (body_fields (body (respond r))) \<and>
         ascii ''meta_description'' \<notin> set (body_fields (body (respond r))) \<and>
         ascii ''post_content'' \<notin> set (body_fields (body (respond r)))"
proof -
  have r: "r = Inl (generation_error cause)"
    using assms by (rule generate_content_failed_call)
  then show ?thesis
    by (simp add: respond_generation_error) (simp add: generation_error_def ascii_def)
qed

theorem completion_failure_is_generation_error_witness:
  "generate_content cfg_both env_meta_fails (ascii ''ai'') [] =
     (Inl (generation_error (ascii ''quota'')),
      [NewsCall news_url (news_params (ascii ''ai'') (ascii ''news-key'')) (Some (news_response 200 [])),
       CompletionCall (title_request (ascii ''ai'') NO_NEWS) ok_reply,
       CompletionCall (meta_request (ascii ''ok'')) (Inl (ascii ''quota''))]) \<and>
   completion_text (Inl (ascii ''quota'')) = Inl (ascii ''quota'') \<and>
   Inl (generation_error (ascii ''quota'')) =
     Inl (HTTPException 500 (GENERATION_ERROR_PREFIX @ ascii ''quota'')) \<and>
   body_fields (body (respond (Inl (generation_error (ascii ''quota''))))) = [ascii ''detail'']"
proof -
  have m: "CompletionCall (meta_request (ascii ''ok'')) (Inl (ascii ''quota'')) \<in>
      set (calls_since []
        [NewsCall news_url (news_params (ascii ''ai'') (ascii ''news-key'')) (Some (news_response 200 [])),
         CompletionCall (title_request (ascii ''ai'') NO_NEWS) ok_reply,
         CompletionCall (meta_request (ascii ''ok'')) (Inl (ascii ''quota''))])"
    by (simp add: calls_since_def)
  have c: "completion_text (Inl (ascii ''quota'')) = Inl (ascii ''quota'')"
    by (simp add: completion_text_def)
  show ?thesis
    using run_meta_fails c completion_failure_is_generation_error [OF run_meta_fails m c]
    by blast
qed

text \<open>
  \<^bold>\<open>C5.\<close> As amended: when \<open>generate_content\<close> succeeds, its result has exactly the three
  fields, each the content of the corresponding completion with white space stripped from
  both ends; a field is empty exactly when that content is empty or all white space. The
  claim as stated fails for completions that come back with an empty content.
\<close>

theorem success_fields_are_stripped_contents:
  assumes "generate_content cfg env topic tr = (Inr d, tr')"
  shows "\<exists>n q1 r1 q2 r2 q3 r3 c1 c2 c3.
           calls_since tr tr' =
             [n, CompletionCall q1 (Inr r1), CompletionCall q2 (Inr r2), CompletionCall q3 (Inr r3)] \<and>
           first_content r1 = Some c1 \<and> first_content r2 = Some c2 \<and> first_content r3 = Some c3 \<and>
           d = [(ascii ''title'', strip c1),
                (ascii ''meta_description'', strip c2),
                (ascii ''post_content'', strip c3)] \<and>
           (strip c1 = [] \<longleftrightarrow> list_all isspace c1) \<and>
           (strip c2 = [] \<longleftrightarrow> list_all isspace c2) \<and>
           (strip c3 = [] \<longleftrightarrow> list_all isspace c3)"
proof -
  from generate_content_success [OF assms]
  obtain n q1 r1 q2 r2 q3 r3 t1 t2 t3 where
    log: "calls_since tr tr' = [n, CompletionCall q1 r1, CompletionCall q2 r2, CompletionCall q3 r3]"
    and t: "completion_text r1 = Inr t1" "completion_text r2 = Inr t2" "completion_text r3 = Inr t3"
    and d: "d = [(ascii ''title'', t1), (ascii ''meta_description'', t2), (ascii ''post_content'', t3)]"
    by blast
  from completion_text_Inr [OF t(1)] obtain p1 c1 where
    1: "r1 = Inr p1" "first_content p1 = Some c1" "t1 = strip c1" by blast
  from completion_text_Inr [OF t(2)] obtain p2 c2 where
    2: "r2 = Inr p2" "first_content p2 = Some c2" "t2 = strip c2" by blast
  from completion_text_Inr [OF t(3)] obtain p3 c3 where
    3: "r3 = Inr p3" "first_content p3 = Some c3" "t3 = strip c3" by blast
  have "calls_since tr tr' =
      [n, CompletionCall q1 (Inr p1), CompletionCall q2 (Inr p2), CompletionCall q3 (Inr p3)]"
    using log 1(1) 2(1) 3(1) by simp
  moreover have "d = [(ascii ''title'', strip c1),
                (ascii ''meta_description'', strip c2),
                (ascii ''post_content'', strip c3)]"
    using d 1(3) 2(3) 3(3) by simp
  ultimately show ?thesis
    using 1(2) 2(2) 3(2) strip_empty_iff by blast
qed

theorem success_fields_are_stripped_contents_witness:
  "generate_content cfg_both env_six (ascii ''ai'') [] =
     (Inr [(ascii ''title'', ascii ''ok''), (ascii ''meta_description'', ascii ''ok''),
           (ascii ''post_content'', ascii ''ok'')],
      snd (generate_content cfg_both env_six (ascii ''ai'') [])) \<and>
   length (calls_since [] (snd (generate_content cfg_both env_six (ascii ''ai'') []))) = 4"
proof -
  have h: "generate_content cfg_both env_six (ascii ''ai'') [] =
     (Inr [(ascii ''title'', ascii ''ok''), (ascii ''meta_description'', ascii ''ok''),
           (ascii ''post_content'', ascii ''ok'')],
      snd (generate_content cfg_both env_six (ascii ''ai'') []))"
    using run_six by (metis prod.collapse)
  from success_fields_are_stripped_contents [OF h]
  have "length (calls_since [] (snd (generate_content cfg_both env_six (ascii ''ai'') []))) = 4"
    by auto
  with h show ?thesis by blast
qed

theorem blank_completions_counterexample:
  "fst (generate_content cfg_both env_blank (ascii ''ai'') []) =
     Inr [(ascii ''title'', []), (ascii ''meta_description'', []), (ascii ''post_content'', [])]"
  by (simp add: run_defs env_blank_def)

section \<open>The request boundary\<close>




end
